theory Spec2Isabelle
  imports Complex_Main
begin

section \<open>Python strings\<close>

text \<open>
  A Python \<open>str\<close> is a sequence of Unicode code points, so a string is a list of
  natural numbers here, one per code point. The markers of the input format are
  Chinese, and \<open>str.strip\<close>, \<open>re\<close>'s \<open>\d\<close> and \<open>int\<close> all work on code points.
\<close>

type_synonym ustr = "nat list"


text \<open>The code points for which \<open>str.isspace\<close> holds (what \<open>str.strip()\<close> removes).\<close>

definition isspace :: "nat \<Rightarrow> bool" where
  "isspace c \<longleftrightarrow>
     (9 \<le> c \<and> c \<le> 13) \<or> (28 \<le> c \<and> c \<le> 32) \<or> c = 133 \<or> c = 160 \<or> c = 5760 \<or>
     (8192 \<le> c \<and> c \<le> 8202) \<or> c = 8232 \<or> c = 8233 \<or> c = 8239 \<or> c = 8287 \<or> c = 12288"

definition lstrip :: "ustr \<Rightarrow> ustr" where
  "lstrip s = dropWhile isspace s"

definition rstrip :: "ustr \<Rightarrow> ustr" where
  "rstrip s = rev (dropWhile isspace (rev s))"

definition strip :: "ustr \<Rightarrow> ustr" where
  "strip s = rstrip (lstrip s)"

text \<open>\<open>s.rstrip(chars)\<close> with an explicit character set.\<close>

definition rstrip_chars :: "nat list \<Rightarrow> ustr \<Rightarrow> ustr" where
  "rstrip_chars cs s = rev (dropWhile (\<lambda>c. c \<in> set cs) (rev s))"

text \<open>\<open>s.split(d)\<close> for a one-character separator: never empty.\<close>

fun split_on :: "nat \<Rightarrow> ustr \<Rightarrow> ustr list" where
  "split_on d [] = [[]]"
| "split_on d (c # cs) =
     (let r = split_on d cs in if c = d then [] # r else (c # hd r) # tl r)"

text \<open>\<open>s.split(d, 1)[1]\<close>, for \<open>d\<close> in \<open>s\<close>: what follows the first \<open>d\<close>.\<close>

definition after_first :: "nat \<Rightarrow> ustr \<Rightarrow> ustr" where
  "after_first d s = tl (dropWhile (\<lambda>c. c \<noteq> d) s)"

fun startswith :: "ustr \<Rightarrow> ustr \<Rightarrow> bool" where
  "startswith s [] = True"
| "startswith [] (p # ps) = False"
| "startswith (c # cs) (p # ps) = (c = p \<and> startswith cs ps)"

text \<open>\<open>sub in s\<close> for strings: \<open>sub\<close> occurs as a contiguous piece of \<open>s\<close>.\<close>

fun contains :: "ustr \<Rightarrow> ustr \<Rightarrow> bool" where
  "contains [] sub = (sub = [])"
| "contains (c # cs) sub = (startswith (c # cs) sub \<or> contains cs sub)"

subsection \<open>Decimal digits and \<open>int\<close>\<close>

text \<open>
  \<open>\d\<close> in a \<open>str\<close> pattern and \<open>int\<close> accept every Unicode decimal digit. The
  decimal digits come in blocks of ten consecutive code points with the values 0 to 9;
  these are the first code points of the blocks (Unicode 14.0, the table of
  \<open>str.isdecimal\<close>).
\<close>

definition decimal_blocks :: "nat list" where
  "decimal_blocks =
     [48, 1632, 1776, 1984, 2406, 2534, 2662, 2790, 2918, 3046, 3174, 3302, 3430, 3558,
      3664, 3792, 3872, 4160, 4240, 6112, 6160, 6470, 6608, 6784, 6800, 6992, 7088, 7232,
      7248, 42528, 43216, 43264, 43472, 43504, 43600, 44016, 65296, 66720, 68912, 69734,
      69872, 69942, 70096, 70384, 70736, 70864, 71248, 71360, 71472, 71904, 72016, 72784,
      73040, 73120, 92768, 92864, 93008, 120782, 120792, 120802, 120812, 120822, 123200,
      123632, 125264, 130032]"

definition decimal_value :: "nat \<Rightarrow> nat option" where
  "decimal_value c =
     (case find (\<lambda>b. b \<le> c \<and> c < b + 10) decimal_blocks of
        None \<Rightarrow> None
      | Some b \<Rightarrow> Some (c - b))"

definition isdecimal :: "nat \<Rightarrow> bool" where
  "isdecimal c \<longleftrightarrow> decimal_value c \<noteq> None"

text \<open>The value of a run of decimal digits, most significant first.\<close>

definition digits_value :: "ustr \<Rightarrow> int" where
  "digits_value ds = foldl (\<lambda>a d. 10 * a + int (case decimal_value d of None \<Rightarrow> 0 | Some v \<Rightarrow> v)) 0 ds"

text \<open>
  The digit part that \<open>int\<close> accepts: digits, with single underscores allowed between
  two digits.
\<close>

fun digit_groups :: "ustr \<Rightarrow> bool" where
  "digit_groups [] = False"
| "digit_groups [d] = isdecimal d"
| "digit_groups (d # u # r) =
     (isdecimal d \<and> (if u = 95 then digit_groups r else digit_groups (u # r)))"

text \<open>
  \<open>int(s)\<close> in base 10: surrounding whitespace is dropped, an optional sign follows, then
  the digit part. \<open>None\<close> stands for \<open>ValueError\<close>. Python integers are unbounded; the
  interpreter's optional limit on the length of a digit string is taken as switched off.
\<close>

definition py_int :: "ustr \<Rightarrow> int option" where
  "py_int s =
     (let t = strip s;
          neg = (t \<noteq> [] \<and> hd t = 45);
          body = (if t \<noteq> [] \<and> (hd t = 45 \<or> hd t = 43) then tl t else t)
      in if digit_groups body
         then Some ((if neg then - 1 else 1) * digits_value (filter (\<lambda>c. c \<noteq> 95) body))
         else None)"

text \<open>
  \<open>re.search(r': (\d+)', s)\<close>: the leftmost colon followed by a space and a digit; group 1
  is the longest run of digits from there.
\<close>

fun search_count :: "ustr \<Rightarrow> ustr option" where
  "search_count (c # sp # d # r) =
     (if c = 58 \<and> sp = 32 \<and> isdecimal d then Some (takeWhile isdecimal (d # r))
      else search_count (sp # d # r))"
| "search_count _ = None"

section \<open>The question model\<close>

datatype question_type = single_choice | multiple_choice | rating | fill_in_blank

text \<open>
  One question as the parser builds it: the dictionary with the keys \<open>text\<close>, \<open>type\<close>,
  \<open>options\<close> and \<open>data\<close>.
\<close>

record question =
  q_text :: ustr
  q_type :: question_type
  q_options :: "ustr list"
  q_data :: "int list"

text \<open>
  A survey is a Python \<open>dict\<close> from question text to question. A \<open>dict\<close> iterates in
  insertion order, and storing under a key that is present replaces the value in place,
  so the survey is an association list with this update.
\<close>

type_synonym survey = "(ustr \<times> question) list"

fun dict_set :: "'k \<Rightarrow> 'v \<Rightarrow> ('k \<times> 'v) list \<Rightarrow> ('k \<times> 'v) list" where
  "dict_set k v [] = [(k, v)]"
| "dict_set k v ((k', v') # kvs) =
     (if k' = k then (k, v) # kvs else (k', v') # dict_set k v kvs)"

section \<open>The line-format parser\<close>

definition marker :: ustr where
  "marker = [38382, 39064]"

definition lbracket :: nat where
  "lbracket = 12304"

definition rbracket :: nat where
  "rbracket = 12305"

text \<open>The table \<open>self.question_types\<close>, in the order of its keys.\<close>

definition label_single_choice :: ustr where
  "label_single_choice = [21333, 36873, 39064]"

definition label_multiple_choice :: ustr where
  "label_multiple_choice = [22810, 36873, 39064]"

definition label_rating :: ustr where
  "label_rating = [35780, 20998, 39064]"

definition label_fill_in_blank :: ustr where
  "label_fill_in_blank = [22635, 31354, 39064]"

definition question_types :: "(ustr \<times> question_type) list" where
  "question_types =
     [(label_single_choice, single_choice),
      (label_multiple_choice, multiple_choice),
      (label_rating, rating),
      (label_fill_in_blank, fill_in_blank)]"

text \<open>The test of lines 56 and 96: the line looks like a question header.\<close>

definition is_header :: "ustr \<Rightarrow> bool" where
  "is_header line \<longleftrightarrow>
     startswith line marker \<and> lbracket \<in> set line \<and> rbracket \<in> set line"

text \<open>Lines 62 to 66: the first label of the table whose bracketed form occurs in the line.\<close>

definition lookup_type :: "ustr \<Rightarrow> question_type option" where
  "lookup_type line =
     map_option snd
       (find (\<lambda>(label, t). contains line ([lbracket] @ label @ [rbracket])) question_types)"

text \<open>Lines 73 and 74: the text after the first closing bracket.\<close>

definition question_text :: "ustr \<Rightarrow> ustr" where
  "question_text line =
     rstrip_chars [9]
       (strip (if rbracket \<in> set line then after_first rbracket line else line))"

text \<open>Lines 111 to 118: one data line of a question that is not fill-in-the-blank.\<close>

definition option_line :: "ustr \<Rightarrow> question \<Rightarrow> question" where
  "option_line data_line q =
     (if 58 \<in> set data_line then
        (let option_name = strip (hd (split_on 58 data_line)) in
         case search_count data_line of
           None \<Rightarrow> q
         | Some g \<Rightarrow> q\<lparr>q_options := q_options q @ [option_name],
                        q_data := q_data q @ [digits_value g]\<rparr>)
      else q)"

text \<open>Lines 102 to 106: the data line of a fill-in-the-blank question.\<close>

definition blank_line :: "ustr \<Rightarrow> question \<Rightarrow> question" where
  "blank_line data_line q =
     (case py_int data_line of
        Some total_responses \<Rightarrow> q\<lparr>q_data := [total_responses]\<rparr>
      | None \<Rightarrow> q\<lparr>q_data := [0]\<rparr>)"

text \<open>
  The nested loop of lines 87 to 120, from cursor \<open>i\<close>. It returns the cursor and the
  question when it leaves the loop; \<open>None\<close> is a loop that never leaves.
\<close>

partial_function (option) data_scan ::
  "ustr list \<Rightarrow> question_type \<Rightarrow> nat \<Rightarrow> question \<Rightarrow> (nat \<times> question) option" where
  "data_scan lines t i q =
     (if i < length lines then
        (let data_line = strip (lines ! i) in
         if data_line = [] then data_scan lines t (i + 1) q
         else if is_header data_line then Some (i, q)
         else if t = fill_in_blank then Some (i + 1, blank_line data_line q)
         else data_scan lines t (i + 1) (option_line data_line q))
      else Some (i, q))"

text \<open>Lines 58, 59, 125 and 126: store the question under its text, if there is one.\<close>

definition save :: "question option \<Rightarrow> survey \<Rightarrow> survey" where
  "save cur questions =
     (case cur of None \<Rightarrow> questions | Some q \<Rightarrow> dict_set (q_text q) q questions)"

text \<open>The outer loop of lines 52 to 122 and the final store of lines 125 to 128.\<close>

partial_function (option) line_scan ::
  "ustr list \<Rightarrow> nat \<Rightarrow> question option \<Rightarrow> survey \<Rightarrow> survey option" where
  "line_scan lines i cur questions =
     (if i < length lines then
        (let line = strip (lines ! i) in
         if is_header line then
           (let questions' = save cur questions in
            case lookup_type line of
              None \<Rightarrow> line_scan lines (i + 1) cur questions'
            | Some t \<Rightarrow>
                (case data_scan lines t (i + 1)
                        \<lparr>q_text = question_text line, q_type = t, q_options = [], q_data = []\<rparr> of
                   None \<Rightarrow> None
                 | Some (j, q) \<Rightarrow> line_scan lines j (Some q) questions'))
         else line_scan lines (i + 1) cur questions)
      else Some (save cur questions))"

definition parse_md_metadata_with_data :: "ustr \<Rightarrow> survey option" where
  "parse_md_metadata_with_data md_content = line_scan (split_on 10 md_content) 0 None []"

section \<open>The summary report\<close>

record summary =
  total_responses :: int
  analyzed_questions :: nat
  skipped_questions :: nat
  completeness :: string

text \<open>
  One pass of the loop of lines 427 to 435 over the three counters
  \<open>(total_responses, analyzed_questions, skipped_questions)\<close>.
\<close>

definition summary_step :: "question \<Rightarrow> int \<times> nat \<times> nat \<Rightarrow> int \<times> nat \<times> nat" where
  "summary_step q_info s =
     (case s of (tot, analyzed, skipped) \<Rightarrow>
        if q_type q_info = fill_in_blank then
          (if q_data q_info \<noteq> [] then max tot (hd (q_data q_info)) else tot,
           analyzed, skipped + 1)
        else
          (if q_data q_info \<noteq> [] then max tot (sum_list (q_data q_info)) else tot,
           analyzed + 1, skipped))"

text \<open>\<open>generate_summary_report\<close>; \<open>None\<close> is Python's \<open>None\<close> of line 421.\<close>

definition generate_summary_report :: "survey \<Rightarrow> summary option" where
  "generate_summary_report questions =
     (if questions = [] then None
      else
        (case fold summary_step (map snd questions) (0, 0, 0) of
           (tot, analyzed, skipped) \<Rightarrow>
             Some \<lparr>total_responses = tot, analyzed_questions = analyzed,
                   skipped_questions = skipped, completeness = ''100.0%''\<rparr>))"

text \<open>
  The value a question puts forward for \<open>total_responses\<close>: the first stored count of a
  fill-in-the-blank question, the sum of the counts of any other question.
\<close>

definition response_candidate :: "question \<Rightarrow> int" where
  "response_candidate q =
     (if q_type q = fill_in_blank then hd (q_data q) else sum_list (q_data q))"

section \<open>The similarity matcher\<close>

text \<open>
  The tokenizer \<open>jieba.cut\<close> is a library outside the repository; it is a parameter
  \<open>jieba_cut\<close> that gives the tokens of a text. Scores are exact rationals, and the threshold
  \<open>0.6\<close> is \<open>6/10\<close>.
\<close>

definition calculate_text_similarity :: "(ustr \<Rightarrow> ustr list) \<Rightarrow> ustr \<Rightarrow> ustr \<Rightarrow> rat" where
  "calculate_text_similarity jieba_cut text1 text2 =
     (let words1 = set (jieba_cut text1); words2 = set (jieba_cut text2) in
      if words1 = {} \<or> words2 = {} then 0
      else of_nat (card (words1 \<inter> words2)) / of_nat (card (words1 \<union> words2)))"

record matching_pair =
  question1 :: ustr
  question2 :: ustr
  pair_type :: question_type
  similarity :: rat
  data1 :: question
  data2 :: question

text \<open>The body of the inner loop, lines 456 to 467.\<close>

definition match_step ::
  "(ustr \<Rightarrow> ustr list) \<Rightarrow> ustr \<Rightarrow> question \<Rightarrow> ustr \<times> question \<Rightarrow>
   matching_pair list \<Rightarrow> matching_pair list" where
  "match_step jieba_cut q1_text q1_info kv matching_pairs =
     (case kv of (q2_text, q2_info) \<Rightarrow>
        if q_type q1_info = q_type q2_info \<and> q_type q1_info \<noteq> fill_in_blank then
          (let sim = calculate_text_similarity jieba_cut q1_text q2_text in
           if sim > 6 / 10 then
             matching_pairs @
               [\<lparr>question1 = q1_text, question2 = q2_text, pair_type = q_type q1_info,
                 similarity = sim, data1 = q1_info, data2 = q2_info\<rparr>]
           else matching_pairs)
        else matching_pairs)"

text \<open>The two nested loops of lines 453 to 467, before the sort.\<close>

definition collect_pairs ::
  "(ustr \<Rightarrow> ustr list) \<Rightarrow> survey \<Rightarrow> survey \<Rightarrow> matching_pair list" where
  "collect_pairs jieba_cut questions comparison_questions =
     fold (\<lambda>(q1_text, q1_info). fold (match_step jieba_cut q1_text q1_info) comparison_questions)
       questions []"

text \<open>
  \<open>list.sort(key=f, reverse=True)\<close>: a stable sort in descending order of the key.
  The interpreter reverses the list, sorts it stably in ascending order and reverses it
  again.
\<close>

definition sort_reverse :: "('a \<Rightarrow> 'k::linorder) \<Rightarrow> 'a list \<Rightarrow> 'a list" where
  "sort_reverse f xs = rev (sort_key f (rev xs))"

definition find_matching_questions ::
  "(ustr \<Rightarrow> ustr list) \<Rightarrow> survey \<Rightarrow> survey \<Rightarrow> matching_pair list" where
  "find_matching_questions jieba_cut questions comparison_questions =
     (if questions = [] \<or> comparison_questions = [] then []
      else sort_reverse similarity (collect_pairs jieba_cut questions comparison_questions))"

section \<open>The comparison aligner\<close>

datatype py_error = IndexError

text \<open>\<open>xs.index(x)\<close> for an \<open>x\<close> that is in \<open>xs\<close>: the position of its first occurrence.\<close>

fun index :: "'a list \<Rightarrow> 'a \<Rightarrow> nat" where
  "index [] x = 0"
| "index (y # ys) x = (if y = x then 0 else Suc (index ys x))"

text \<open>Lines 512 to 516: the count of one option on one side.\<close>

definition side_count :: "question \<Rightarrow> ustr \<Rightarrow> py_error + int" where
  "side_count d opt =
     (if opt \<in> set (q_options d) then
        (let idx = index (q_options d) opt in
         if idx < length (q_data d) then Inr (q_data d ! idx) else Inl IndexError)
      else Inr 0)"

text \<open>The loop of lines 511 to 522 over the merged options.\<close>

fun align_loop ::
  "question \<Rightarrow> question \<Rightarrow> ustr list \<Rightarrow> int list \<times> int list \<Rightarrow>
   py_error + int list \<times> int list" where
  "align_loop d1 d2 [] acc = Inr acc"
| "align_loop d1 d2 (opt # rest) acc =
     (case side_count d1 opt of
        Inl e \<Rightarrow> Inl e
      | Inr a \<Rightarrow>
          (case side_count d2 opt of
             Inl e \<Rightarrow> Inl e
           | Inr b \<Rightarrow> align_loop d1 d2 rest (fst acc @ [a], snd acc @ [b])))"

record aligned =
  all_options :: "ustr list"
  counts1 :: "int list"
  counts2 :: "int list"

text \<open>
  The aligned data that \<open>create_single_choice_comparison\<close> and
  \<open>create_multiple_choice_comparison\<close> hand to the charts. \<open>list(set(xs))\<close> lists the
  distinct elements of \<open>xs\<close> in an order that the language leaves open: it is the
  parameter \<open>list_set\<close>.
\<close>

definition create_single_choice_comparison ::
  "(ustr list \<Rightarrow> ustr list) \<Rightarrow> question \<Rightarrow> question \<Rightarrow> py_error + aligned" where
  "create_single_choice_comparison list_set d1 d2 =
     (let opts = list_set (q_options d1 @ q_options d2) in
      case align_loop d1 d2 opts ([], []) of
        Inl e \<Rightarrow> Inl e
      | Inr cs \<Rightarrow> Inr \<lparr>all_options = opts, counts1 = fst cs, counts2 = snd cs\<rparr>)"

definition create_multiple_choice_comparison ::
  "(ustr list \<Rightarrow> ustr list) \<Rightarrow> question \<Rightarrow> question \<Rightarrow> py_error + aligned" where
  "create_multiple_choice_comparison list_set d1 d2 =
     (let opts = list_set (q_options d1 @ q_options d2) in
      case align_loop d1 d2 opts ([], []) of
        Inl e \<Rightarrow> Inl e
      | Inr cs \<Rightarrow> Inr \<lparr>all_options = opts, counts1 = fst cs, counts2 = snd cs\<rparr>)"

section \<open>The weighted rating average\<close>



section \<open>Notions used in the statements\<close>



text \<open>
  The shape of a question parsed from the given lines. A fill-in-the-blank question has no
  options, and no count or the one count read from one of the lines (0 when \<open>int\<close> rejects
  the line). Any other question has as many counts as options, none of them negative.
\<close>

definition well_shaped :: "ustr list \<Rightarrow> question \<Rightarrow> bool" where
  "well_shaped lines q \<longleftrightarrow>
     (if q_type q = fill_in_blank then
        q_options q = [] \<and>
        (q_data q = [] \<or>
         (\<exists>l \<in> set lines. q_data q = [case py_int (strip l) of None \<Rightarrow> 0 | Some n \<Rightarrow> n]))
      else length (q_options q) = length (q_data q) \<and> (\<forall>c \<in> set (q_data q). 0 \<le> c))"

section \<open>Evaluation rules\<close>


section \<open>Properties of the summary report\<close>

lemma fold_summary_step:
  "fold summary_step qs (t, a, s) =
     (fold max (map response_candidate (filter (\<lambda>q. q_data q \<noteq> []) qs)) t,
      a + length (filter (\<lambda>q. q_type q \<noteq> fill_in_blank) qs),
      s + length (filter (\<lambda>q. q_type q = fill_in_blank) qs))"
  by (induction qs arbitrary: t a s)
     (simp_all add: summary_step_def response_candidate_def max.commute)

lemma fold_max_Max: "fold max xs (t::int) = Max (insert t (set xs))"
  using Max.set_eq_fold [of t xs] by simp

text \<open>
  C3, as the code has it. An empty survey gives no report at all (\<open>None\<close>). For any other
  survey the report counts the fill-in-the-blank questions as skipped and all others as
  analysed, and \<open>total_responses\<close> is the largest of 0 and the candidates of the questions
  whose counts are not empty: the first stored count of a fill-in-the-blank question, the
  sum of the counts of any other question.
\<close>

theorem generate_summary_report_spec:
  "generate_summary_report questions =
     (if questions = [] then None
      else Some \<lparr>total_responses =
                   Max (insert 0 (response_candidate ` {q \<in> snd ` set questions. q_data q \<noteq> []})),
                 analyzed_questions =
                   length (filter (\<lambda>kv. q_type (snd kv) \<noteq> fill_in_blank) questions),
                 skipped_questions =
                   length (filter (\<lambda>kv. q_type (snd kv) = fill_in_blank) questions),
                 completeness = ''100.0%''\<rparr>)"
proof -
  have s: "set (map response_candidate (filter (\<lambda>q. q_data q \<noteq> []) (map snd questions))) =
        response_candidate ` {q \<in> snd ` set questions. q_data q \<noteq> []}"
    by auto
  have l1: "length (filter (\<lambda>q. q_type q \<noteq> fill_in_blank) (map snd questions)) =
        length (filter (\<lambda>kv. q_type (snd kv) \<noteq> fill_in_blank) questions)"
    by (simp add: filter_map comp_def)
  have l2: "length (filter (\<lambda>q. q_type q = fill_in_blank) (map snd questions)) =
        length (filter (\<lambda>kv. q_type (snd kv) = fill_in_blank) questions)"
    by (simp add: filter_map comp_def)
  show ?thesis
    unfolding generate_summary_report_def fold_summary_step fold_max_Max s l1 l2
    by simp
qed

text \<open>
  C3 as stated fails on the empty survey: the claim has a report there with
  \<open>total_responses = 0\<close> and both counts 0, the code returns \<open>None\<close>.
\<close>

theorem summary_empty_counterexample:
  "generate_summary_report [] \<noteq>
     Some \<lparr>total_responses = 0, analyzed_questions = 0, skipped_questions = 0,
           completeness = ''100.0%''\<rparr>"
  by (simp add: generate_summary_report_def)

section \<open>Properties of the similarity matcher\<close>

text \<open>
  C10: the similarity score does not depend on the order of its two texts.
\<close>

theorem similarity_symmetric:
  "calculate_text_similarity jieba_cut text1 text2 =
     calculate_text_similarity jieba_cut text2 text1"
  by (auto simp add: calculate_text_similarity_def Let_def Int_commute Un_commute)

lemma fold_match_step:
  "fold (match_step jieba_cut t1 q1) s2 acc =
     acc @ concat (map (\<lambda>(t2, q2).
        if q_type q1 = q_type q2 \<and> q_type q1 \<noteq> fill_in_blank \<and>
           calculate_text_similarity jieba_cut t1 t2 > 6 / 10
        then [\<lparr>question1 = t1, question2 = t2, pair_type = q_type q1,
               similarity = calculate_text_similarity jieba_cut t1 t2,
               data1 = q1, data2 = q2\<rparr>]
        else []) s2)"
  by (induction s2 arbitrary: acc) (auto simp add: match_step_def Let_def)

lemma fold_outer:
  "fold (\<lambda>(t1, q1). fold (match_step jieba_cut t1 q1) s2) s1 acc =
     acc @ concat (map (\<lambda>(t1, q1). concat (map (\<lambda>(t2, q2).
        if q_type q1 = q_type q2 \<and> q_type q1 \<noteq> fill_in_blank \<and>
           calculate_text_similarity jieba_cut t1 t2 > 6 / 10
        then [\<lparr>question1 = t1, question2 = t2, pair_type = q_type q1,
               similarity = calculate_text_similarity jieba_cut t1 t2,
               data1 = q1, data2 = q2\<rparr>]
        else []) s2)) s1)"
  by (induction s1 arbitrary: acc) (auto simp add: fold_match_step)

lemma collect_pairs_eq:
  "collect_pairs jieba_cut s1 s2 =
     concat (map (\<lambda>(t1, q1). concat (map (\<lambda>(t2, q2).
        if q_type q1 = q_type q2 \<and> q_type q1 \<noteq> fill_in_blank \<and>
           calculate_text_similarity jieba_cut t1 t2 > 6 / 10
        then [\<lparr>question1 = t1, question2 = t2, pair_type = q_type q1,
               similarity = calculate_text_similarity jieba_cut t1 t2,
               data1 = q1, data2 = q2\<rparr>]
        else []) s2)) s1)"
  by (simp add: collect_pairs_def fold_outer)

lemma set_sort_reverse: "set (sort_reverse f xs) = set xs"
  by (simp add: sort_reverse_def)

lemma sort_reverse_stable:
  "filter (\<lambda>x. f x = k) (sort_reverse f xs) = filter (\<lambda>x. f x = k) xs"
  by (simp add: sort_reverse_def rev_filter [symmetric] sort_key_stable)

lemma sort_reverse_sorted: "sorted_wrt (\<lambda>a b. a \<ge> b) (map f (sort_reverse f xs))"
proof -
  have "sorted (map f (sort_key f (rev xs)))" by simp
  then have "sorted_wrt (\<lambda>a b. a \<ge> b) (rev (map f (sort_key f (rev xs))))"
    by (simp add: sorted_wrt_rev)
  then show ?thesis by (simp add: sort_reverse_def rev_map)
qed

lemma collect_pairs_Nil1: "collect_pairs jieba_cut [] s2 = []"
  by (simp add: collect_pairs_def)

lemma collect_pairs_Nil2: "collect_pairs jieba_cut s1 [] = []"
proof -
  have "fold (\<lambda>(q1_text, q1_info). fold (match_step jieba_cut q1_text q1_info) []) s1 acc = acc"
    for acc
    by (induction s1 arbitrary: acc) auto
  then show ?thesis by (simp add: collect_pairs_def)
qed

lemma find_matching_collect:
  "find_matching_questions jieba_cut s1 s2 = sort_reverse similarity (collect_pairs jieba_cut s1 s2)"
  by (auto simp add: find_matching_questions_def collect_pairs_Nil1 collect_pairs_Nil2 sort_reverse_def)

text \<open>
  C2: the matcher returns exactly the pairs of one question of each survey that have the
  same type, not fill-in-the-blank, and a similarity above 0.6. So no returned pair has a
  fill-in-the-blank question or a similarity of 0.6 or less, and the similarity of a pair is
  the Jaccard score of the token sets of its two texts, 0 when one of them is empty.
\<close>

theorem find_matching_questions_exact:
  "set (find_matching_questions jieba_cut survey1 survey2) =
     {\<lparr>question1 = t1, question2 = t2, pair_type = q_type q1,
       similarity = calculate_text_similarity jieba_cut t1 t2, data1 = q1, data2 = q2\<rparr>
      | t1 q1 t2 q2.
        (t1, q1) \<in> set survey1 \<and> (t2, q2) \<in> set survey2 \<and> q_type q1 = q_type q2 \<and>
        q_type q1 \<noteq> fill_in_blank \<and> calculate_text_similarity jieba_cut t1 t2 > 6 / 10}
   \<and> (\<forall>m \<in> set (find_matching_questions jieba_cut survey1 survey2).
        q_type (data1 m) \<noteq> fill_in_blank \<and> q_type (data2 m) \<noteq> fill_in_blank \<and>
        \<not> similarity m \<le> 6 / 10 \<and>
        similarity m =
          (if set (jieba_cut (question1 m)) = {} \<or> set (jieba_cut (question2 m)) = {} then 0
           else of_nat (card (set (jieba_cut (question1 m)) \<inter> set (jieba_cut (question2 m)))) /
                of_nat (card (set (jieba_cut (question1 m)) \<union> set (jieba_cut (question2 m))))))"
proof -
  have a: "set (find_matching_questions jieba_cut survey1 survey2) =
     {\<lparr>question1 = t1, question2 = t2, pair_type = q_type q1,
       similarity = calculate_text_similarity jieba_cut t1 t2, data1 = q1, data2 = q2\<rparr>
      | t1 q1 t2 q2.
        (t1, q1) \<in> set survey1 \<and> (t2, q2) \<in> set survey2 \<and> q_type q1 = q_type q2 \<and>
        q_type q1 \<noteq> fill_in_blank \<and> calculate_text_similarity jieba_cut t1 t2 > 6 / 10}"
    unfolding find_matching_collect set_sort_reverse collect_pairs_eq
    by (auto split: if_splits) 
  show ?thesis
    apply (rule conjI)
     apply (rule a)
    unfolding a
    by (auto simp add: calculate_text_similarity_def Let_def)
qed

text \<open>
  C8: the returned pairs are in descending order of similarity, and the pairs of any one
  similarity keep the order in which the loops met them: the questions of the first survey
  in the outer loop, those of the second survey in the inner loop.
\<close>

theorem matches_sorted_stable:
  "sorted_wrt (\<lambda>a b. a \<ge> b) (map similarity (find_matching_questions jieba_cut survey1 survey2))
   \<and> (\<forall>k. filter (\<lambda>m. similarity m = k) (find_matching_questions jieba_cut survey1 survey2) =
           filter (\<lambda>m. similarity m = k)
             (concat (map (\<lambda>(t1, q1). concat (map (\<lambda>(t2, q2).
                if q_type q1 = q_type q2 \<and> q_type q1 \<noteq> fill_in_blank \<and>
                   calculate_text_similarity jieba_cut t1 t2 > 6 / 10
                then [\<lparr>question1 = t1, question2 = t2, pair_type = q_type q1,
                       similarity = calculate_text_similarity jieba_cut t1 t2,
                       data1 = q1, data2 = q2\<rparr>]
                else []) survey2)) survey1)))"
  unfolding find_matching_collect
  by (simp add: sort_reverse_sorted sort_reverse_stable collect_pairs_eq)


text \<open>
  An instance of C2 with one token per character: of two surveys with a single-choice and a
  fill-in-the-blank question each, only the single-choice pair is matched.
\<close>

theorem find_matching_questions_exact_witness:
  "\<lparr>question1 = [97], question2 = [97], pair_type = single_choice, similarity = 1,
     data1 = \<lparr>q_text = [97], q_type = single_choice, q_options = [[65]], q_data = [10]\<rparr>,
     data2 = \<lparr>q_text = [97], q_type = single_choice, q_options = [[66]], q_data = [20]\<rparr>\<rparr>
   \<in> set (find_matching_questions (map (\<lambda>c. [c]))
        [([97], \<lparr>q_text = [97], q_type = single_choice, q_options = [[65]], q_data = [10]\<rparr>),
         ([99], \<lparr>q_text = [99], q_type = fill_in_blank, q_options = [], q_data = [37]\<rparr>)]
        [([97], \<lparr>q_text = [97], q_type = single_choice, q_options = [[66]], q_data = [20]\<rparr>),
         ([99], \<lparr>q_text = [99], q_type = fill_in_blank, q_options = [], q_data = [5]\<rparr>)])
   \<and> length (find_matching_questions (map (\<lambda>c. [c]))
        [([97], \<lparr>q_text = [97], q_type = single_choice, q_options = [[65]], q_data = [10]\<rparr>),
         ([99], \<lparr>q_text = [99], q_type = fill_in_blank, q_options = [], q_data = [37]\<rparr>)]
        [([97], \<lparr>q_text = [97], q_type = single_choice, q_options = [[66]], q_data = [20]\<rparr>),
         ([99], \<lparr>q_text = [99], q_type = fill_in_blank, q_options = [], q_data = [5]\<rparr>)]) = 1"
proof -
  have sim: "calculate_text_similarity (map (\<lambda>c. [c])) [97] [97] = 1"
    by (simp add: calculate_text_similarity_def)
  have len: "length (find_matching_questions (map (\<lambda>c. [c]))
        [([97], \<lparr>q_text = [97], q_type = single_choice, q_options = [[65]], q_data = [10]\<rparr>),
         ([99], \<lparr>q_text = [99], q_type = fill_in_blank, q_options = [], q_data = [37]\<rparr>)]
        [([97], \<lparr>q_text = [97], q_type = single_choice, q_options = [[66]], q_data = [20]\<rparr>),
         ([99], \<lparr>q_text = [99], q_type = fill_in_blank, q_options = [], q_data = [5]\<rparr>)]) = 1"
    by (simp add: find_matching_questions_def collect_pairs_def match_step_def sim sort_reverse_def)
  show ?thesis
    using find_matching_questions_exact [of "map (\<lambda>c. [c])"
        "[([97], \<lparr>q_text = [97], q_type = single_choice, q_options = [[65]], q_data = [10]\<rparr>),
         ([99], \<lparr>q_text = [99], q_type = fill_in_blank, q_options = [], q_data = [37]\<rparr>)]"
        "[([97], \<lparr>q_text = [97], q_type = single_choice, q_options = [[66]], q_data = [20]\<rparr>),
         ([99], \<lparr>q_text = [99], q_type = fill_in_blank, q_options = [], q_data = [5]\<rparr>)]"] len
    by (simp add: sim)
qed

section \<open>Properties of the parser\<close>

lemma data_scan_end: "length lines \<le> i \<Longrightarrow> data_scan lines t i q = Some (i, q)"
  by (subst data_scan.simps) simp

lemma data_scan_blank:
  "i < length lines \<Longrightarrow> strip (lines ! i) = [] \<Longrightarrow> data_scan lines t i q = data_scan lines t (Suc i) q"
  by (subst data_scan.simps) simp

lemma is_header_nonempty: "is_header l \<Longrightarrow> l \<noteq> []"
  by (auto simp add: is_header_def marker_def)

lemma data_scan_header:
  "i < length lines \<Longrightarrow> is_header (strip (lines ! i)) \<Longrightarrow> data_scan lines t i q = Some (i, q)"
  by (subst data_scan.simps) (simp add: is_header_nonempty)

lemma data_scan_fill:
  "i < length lines \<Longrightarrow> strip (lines ! i) \<noteq> [] \<Longrightarrow> \<not> is_header (strip (lines ! i)) \<Longrightarrow>
   data_scan lines fill_in_blank i q = Some (Suc i, blank_line (strip (lines ! i)) q)"
  by (subst data_scan.simps) simp

lemma data_scan_option:
  "i < length lines \<Longrightarrow> strip (lines ! i) \<noteq> [] \<Longrightarrow> \<not> is_header (strip (lines ! i)) \<Longrightarrow> t \<noteq> fill_in_blank \<Longrightarrow>
   data_scan lines t i q = data_scan lines t (Suc i) (option_line (strip (lines ! i)) q)"
  by (subst data_scan.simps) simp

lemma line_scan_end: "length lines \<le> i \<Longrightarrow> line_scan lines i cur qs = Some (save cur qs)"
  by (subst line_scan.simps) simp

lemma line_scan_skip:
  "i < length lines \<Longrightarrow> \<not> is_header (strip (lines ! i)) \<Longrightarrow> line_scan lines i cur qs = line_scan lines (Suc i) cur qs"
  by (subst line_scan.simps) simp

lemma line_scan_unknown:
  "i < length lines \<Longrightarrow> is_header (strip (lines ! i)) \<Longrightarrow> lookup_type (strip (lines ! i)) = None \<Longrightarrow>
   line_scan lines i cur qs = line_scan lines (Suc i) cur (save cur qs)"
  by (subst line_scan.simps) simp

lemma line_scan_question:
  "i < length lines \<Longrightarrow> is_header (strip (lines ! i)) \<Longrightarrow> lookup_type (strip (lines ! i)) = Some t \<Longrightarrow>
   line_scan lines i cur qs =
     (case data_scan lines t (Suc i) \<lparr>q_text = question_text (strip (lines ! i)), q_type = t, q_options = [], q_data = []\<rparr> of
        None \<Rightarrow> None
      | Some (j, q) \<Rightarrow> line_scan lines j (Some q) (save cur qs))"
  by (subst line_scan.simps) simp


lemma data_scan_induct [case_names stop blank header fill option]:
  assumes stop: "\<And>i q. length lines \<le> i \<Longrightarrow> P i q"
    and blank: "\<And>i q. i < length lines \<Longrightarrow> strip (lines ! i) = [] \<Longrightarrow> P (Suc i) q \<Longrightarrow> P i q"
    and header: "\<And>i q. i < length lines \<Longrightarrow> is_header (strip (lines ! i)) \<Longrightarrow> P i q"
    and fill: "\<And>i q. i < length lines \<Longrightarrow> strip (lines ! i) \<noteq> [] \<Longrightarrow>
                 \<not> is_header (strip (lines ! i)) \<Longrightarrow> t = fill_in_blank \<Longrightarrow> P i q"
    and option: "\<And>i q. i < length lines \<Longrightarrow> strip (lines ! i) \<noteq> [] \<Longrightarrow>
                 \<not> is_header (strip (lines ! i)) \<Longrightarrow> t \<noteq> fill_in_blank \<Longrightarrow>
                 P (Suc i) (option_line (strip (lines ! i)) q) \<Longrightarrow> P i q"
  shows "P i q"
proof (induction "length lines - i" arbitrary: i q rule: less_induct)
  case less
  show ?case
  proof (cases "i < length lines")
    case False
    then show ?thesis by (simp add: stop)
  next
    case True
    then have step: "P (Suc i) q'" for q'
      using less [of "Suc i" q'] by simp
    show ?thesis
    proof (cases "strip (lines ! i) = []")
      case True
      with \<open>i < length lines\<close> step show ?thesis by (simp add: blank)
    next
      case False
      show ?thesis
      proof (cases "is_header (strip (lines ! i))")
        case True
        with \<open>i < length lines\<close> show ?thesis by (simp add: header)
      next
        case nh: False
        show ?thesis
        proof (cases "t = fill_in_blank")
          case True
          with \<open>i < length lines\<close> False nh show ?thesis by (simp add: fill)
        next
          case nf: False
          with \<open>i < length lines\<close> False nh step show ?thesis by (simp add: option)
        qed
      qed
    qed
  qed
qed

lemma data_scan_returns: "\<exists>j q'. data_scan lines t i q = Some (j, q') \<and> i \<le> j"
proof (induction i q rule: data_scan_induct [where lines = lines and t = t])
  case (stop i q)
  then show ?case by (simp add: data_scan_end)
next
  case (blank i q)
  then show ?case by (auto simp add: data_scan_blank)
next
  case (header i q)
  then show ?case by (simp add: data_scan_header)
next
  case (fill i q)
  then show ?case by (simp add: data_scan_fill)
next
  case (option i q)
  then show ?case by (auto simp add: data_scan_option)
qed

lemma line_scan_induct [case_names stop skip unknown question]:
  assumes stop: "\<And>i cur qs. length lines \<le> i \<Longrightarrow> P i cur qs"
    and skip: "\<And>i cur qs. i < length lines \<Longrightarrow> \<not> is_header (strip (lines ! i)) \<Longrightarrow>
                 P (Suc i) cur qs \<Longrightarrow> P i cur qs"
    and unknown: "\<And>i cur qs. i < length lines \<Longrightarrow> is_header (strip (lines ! i)) \<Longrightarrow>
                 lookup_type (strip (lines ! i)) = None \<Longrightarrow>
                 P (Suc i) cur (save cur qs) \<Longrightarrow> P i cur qs"
    and question: "\<And>i cur qs t j q. i < length lines \<Longrightarrow> is_header (strip (lines ! i)) \<Longrightarrow>
                 lookup_type (strip (lines ! i)) = Some t \<Longrightarrow>
                 data_scan lines t (Suc i)
                   \<lparr>q_text = question_text (strip (lines ! i)), q_type = t,
                     q_options = [], q_data = []\<rparr> = Some (j, q) \<Longrightarrow>
                 i < j \<Longrightarrow> P j (Some q) (save cur qs) \<Longrightarrow> P i cur qs"
  shows "P i cur qs"
proof (induction "length lines - i" arbitrary: i cur qs rule: less_induct)
  case less
  show ?case
  proof (cases "i < length lines")
    case False
    then show ?thesis by (simp add: stop)
  next
    case True
    then have step: "P j cur' qs'" if "i < j" for j cur' qs'
      using less [of j cur' qs'] that by simp
    show ?thesis
    proof (cases "is_header (strip (lines ! i))")
      case False
      with True step show ?thesis by (simp add: skip)
    next
      case hd: True
      show ?thesis
      proof (cases "lookup_type (strip (lines ! i))")
        case None
        with True hd step show ?thesis by (simp add: unknown)
      next
        case (Some t)
        obtain j q where d: "data_scan lines t (Suc i)
            \<lparr>q_text = question_text (strip (lines ! i)), q_type = t,
              q_options = [], q_data = []\<rparr> = Some (j, q)" and "Suc i \<le> j"
          using data_scan_returns by blast
        then have "i < j" by simp
        with True hd Some d step show ?thesis by (blast intro: question)
      qed
    qed
  qed
qed

lemma line_scan_returns: "\<exists>s. line_scan lines i cur qs = Some s"
proof (induction i cur qs rule: line_scan_induct [where lines = lines])
  case (stop i cur qs)
  then show ?case by (simp add: line_scan_end)
next
  case (skip i cur qs)
  then show ?case by (simp add: line_scan_skip)
next
  case (unknown i cur qs)
  then show ?case by (simp add: line_scan_unknown)
next
  case (question i cur qs t j q)
  then show ?case by (simp add: line_scan_question)
qed

text \<open>
  C9: the parser returns on every input text. Both loops either move the cursor forward or
  leave, and the cursor of the nested loop never moves back.
\<close>

theorem parse_terminates: "\<exists>survey. parse_md_metadata_with_data md_content = Some survey"
  unfolding parse_md_metadata_with_data_def by (rule line_scan_returns)

subsection \<open>Option data lines\<close>





















section \<open>Properties of the comparison aligner\<close>

lemma index_less: "x \<in> set xs \<Longrightarrow> index xs x < length xs"
  by (induction xs) auto

lemma map_of_zip_index:
  "length xs = length ys \<Longrightarrow> x \<in> set xs \<Longrightarrow> map_of (zip xs ys) x = Some (ys ! index xs x)"
  by (induction xs ys rule: list_induct2) auto

lemma map_of_zip_absent:
  "length xs = length ys \<Longrightarrow> x \<notin> set xs \<Longrightarrow> map_of (zip xs ys) x = None"
  by (induction xs ys rule: list_induct2) auto

lemma side_count_parallel:
  assumes "length (q_options d) = length (q_data d)"
  shows "side_count d opt =
     Inr (case map_of (zip (q_options d) (q_data d)) opt of None \<Rightarrow> 0 | Some c \<Rightarrow> c)"
proof (cases "opt \<in> set (q_options d)")
  case True
  with assms index_less [of opt "q_options d"] show ?thesis
    by (simp add: side_count_def Let_def map_of_zip_index)
next
  case False
  with assms show ?thesis
    by (simp add: side_count_def map_of_zip_absent)
qed

lemma align_loop_map:
  assumes "\<And>opt. side_count d1 opt = Inr (f1 opt)" and "\<And>opt. side_count d2 opt = Inr (f2 opt)"
  shows "align_loop d1 d2 opts acc = Inr (fst acc @ map f1 opts, snd acc @ map f2 opts)"
  by (induction opts arbitrary: acc) (simp_all add: assms)

lemma distinct_count_list: "distinct xs \<Longrightarrow> x \<in> set xs \<Longrightarrow> count_list xs x = 1"
  by (induction xs) (auto simp add: count_list_0_iff)

text \<open>
  C5: for two questions whose options and counts are parallel, both comparison builders
  give the same aligned data without an error. Its options are the set union of the two
  option lists, each option once, so their number is the size of that union; at each
  position the count of a side is the count that side has for the option (of its first
  occurrence there), and 0 when the side lacks the option.
\<close>

theorem alignment_spec:
  assumes "length (q_options d1) = length (q_data d1)"
    and "length (q_options d2) = length (q_data d2)"
    and "distinct (list_set (q_options d1 @ q_options d2))"
    and "set (list_set (q_options d1 @ q_options d2)) = set (q_options d1 @ q_options d2)"
  shows "\<exists>r. create_single_choice_comparison list_set d1 d2 = Inr r \<and>
     create_multiple_choice_comparison list_set d1 d2 = Inr r \<and>
     set (all_options r) = set (q_options d1) \<union> set (q_options d2) \<and>
     length (all_options r) = card (set (q_options d1) \<union> set (q_options d2)) \<and>
     (\<forall>opt \<in> set (q_options d1) \<union> set (q_options d2). count_list (all_options r) opt = 1) \<and>
     counts1 r = map (\<lambda>opt. case map_of (zip (q_options d1) (q_data d1)) opt of
                               None \<Rightarrow> 0 | Some c \<Rightarrow> c) (all_options r) \<and>
     counts2 r = map (\<lambda>opt. case map_of (zip (q_options d2) (q_data d2)) opt of
                               None \<Rightarrow> 0 | Some c \<Rightarrow> c) (all_options r)"
proof -
  let ?opts = "list_set (q_options d1 @ q_options d2)"
  let ?f1 = "\<lambda>opt. case map_of (zip (q_options d1) (q_data d1)) opt of None \<Rightarrow> 0 | Some c \<Rightarrow> c"
  let ?f2 = "\<lambda>opt. case map_of (zip (q_options d2) (q_data d2)) opt of None \<Rightarrow> 0 | Some c \<Rightarrow> c"
  let ?r = "\<lparr>all_options = ?opts, counts1 = map ?f1 ?opts, counts2 = map ?f2 ?opts\<rparr>"
  have loop: "align_loop d1 d2 ?opts ([], []) = Inr (map ?f1 ?opts, map ?f2 ?opts)"
    using align_loop_map [of d1 ?f1 d2 ?f2 ?opts "([], [])"]
      side_count_parallel [OF assms(1)] side_count_parallel [OF assms(2)]
    by simp
  have s: "create_single_choice_comparison list_set d1 d2 = Inr ?r"
    by (simp add: create_single_choice_comparison_def loop Let_def)
  have m: "create_multiple_choice_comparison list_set d1 d2 = Inr ?r"
    by (simp add: create_multiple_choice_comparison_def loop Let_def)
  have u: "set ?opts = set (q_options d1) \<union> set (q_options d2)"
    using assms(4) by simp
  have l: "length ?opts = card (set (q_options d1) \<union> set (q_options d2))"
    using distinct_card [OF assms(3)] u by simp
  have c: "\<forall>opt \<in> set (q_options d1) \<union> set (q_options d2). count_list ?opts opt = 1"
    using distinct_count_list [OF assms(3)] u by simp
  from s m u l c show ?thesis by simp
qed

text \<open>
  An instance of C5: options \<open>A\<close> with count 10 against \<open>B\<close> with count 20, the merged
  options listed in order of first occurrence.
\<close>

theorem alignment_spec_witness:
  "create_single_choice_comparison remdups
      \<lparr>q_text = [81], q_type = single_choice, q_options = [[65]], q_data = [10]\<rparr>
      \<lparr>q_text = [81], q_type = single_choice, q_options = [[66]], q_data = [20]\<rparr> =
     Inr \<lparr>all_options = [[65], [66]], counts1 = [10, 0], counts2 = [0, 20]\<rparr>
   \<and> create_multiple_choice_comparison remdups
      \<lparr>q_text = [81], q_type = single_choice, q_options = [[65]], q_data = [10]\<rparr>
      \<lparr>q_text = [81], q_type = single_choice, q_options = [[66]], q_data = [20]\<rparr> =
     Inr \<lparr>all_options = [[65], [66]], counts1 = [10, 0], counts2 = [0, 20]\<rparr>"
proof -
  have e: "create_single_choice_comparison remdups
      \<lparr>q_text = [81], q_type = single_choice, q_options = [[65]], q_data = [10]\<rparr>
      \<lparr>q_text = [81], q_type = single_choice, q_options = [[66]], q_data = [20]\<rparr> =
     Inr \<lparr>all_options = [[65], [66]], counts1 = [10, 0], counts2 = [0, 20]\<rparr>"
    by (simp add: create_single_choice_comparison_def side_count_def Let_def)
  from alignment_spec [of
      "\<lparr>q_text = [81], q_type = single_choice, q_options = [[65]], q_data = [10]\<rparr>"
      "\<lparr>q_text = [81], q_type = single_choice, q_options = [[66]], q_data = [20]\<rparr>" remdups]
  obtain r where "create_single_choice_comparison remdups
      \<lparr>q_text = [81], q_type = single_choice, q_options = [[65]], q_data = [10]\<rparr>
      \<lparr>q_text = [81], q_type = single_choice, q_options = [[66]], q_data = [20]\<rparr> = Inr r"
    and "create_multiple_choice_comparison remdups
      \<lparr>q_text = [81], q_type = single_choice, q_options = [[65]], q_data = [10]\<rparr>
      \<lparr>q_text = [81], q_type = single_choice, q_options = [[66]], q_data = [20]\<rparr> = Inr r"
    by auto
  with e show ?thesis by simp
qed

section \<open>Properties of the weighted rating average\<close>





end
